theory Spec2Isabelle
  imports Main "HOL-Library.Finite_Map" "HOL-Library.Multiset"
begin

section \<open>Go values used by both packages\<close>

text \<open>
  A Go slice is either \<open>nil\<close> or a sequence of elements; the transformer tests a slice
  against \<open>nil\<close>, so the distinction is kept: \<open>None\<close> is the nil slice.
  A Go map is either \<open>nil\<close> or a finite table; \<open>len\<close> of the nil map is 0.
\<close>

type_synonym 'a slice = "'a list option"

type_synonym 'v gomap = "(string, 'v) fmap option"

fun len_map :: "'v gomap \<Rightarrow> nat" where
  "len_map None = 0"
| "len_map (Some m) = fcard (fmdom m)"

section \<open>Severity model (package harbor)\<close>

text \<open>
  Modelled from the spec: the declaration of \<open>harbor.Severity\<close> and of its five constants
  lives in package \<open>harbor\<close>; the spec gives it as an ordered enumeration with the total
  order Unknown < Low < Medium < High < Critical. The Go type is an integer type and the
  transformer compares severities with \<open>>\<close> on that integer, which is \<open>sev_ord\<close> here
  (only the order of the ordinals matters).
\<close>

datatype Severity = SevUnknown | SevLow | SevMedium | SevHigh | SevCritical

fun sev_ord :: "Severity \<Rightarrow> int" where
  "sev_ord SevUnknown = 1"
| "sev_ord SevLow = 2"
| "sev_ord SevMedium = 3"
| "sev_ord SevHigh = 4"
| "sev_ord SevCritical = 5"

section \<open>Report transformer (package scan)\<close>

subsection \<open>Data\<close>

text \<open>
  The structs of packages \<open>tunnel\<close> and \<open>harbor\<close> are declared outside the transformer's
  file; their fields are the ones \<open>Transform\<close> reads and writes. \<open>tunnel.CVSSInfo\<close> is
  only passed through, so it is the type parameter \<open>'c\<close>. Every record field carries
  the name of its struct as a prefix, because several structs share field names.
\<close>

record Layer =
  layer_Digest :: string
  layer_DiffID :: string

record 'c Vulnerability =
  vuln_VulnerabilityID :: string
  vuln_PkgName :: string
  vuln_InstalledVersion :: string
  vuln_FixedVersion :: string
  vuln_Severity :: string
  vuln_Description :: string
  vuln_PrimaryURL :: string
  vuln_References :: "string slice"
  vuln_Layer :: "Layer option"
  vuln_CweIDs :: "string slice"
  vuln_CVSS :: "'c gomap"

text \<open>The only value ever stored under an \<open>interface{}\<close> here is the CVSS table itself.\<close>

datatype 'c any = AnyCVSS "'c gomap"

record 'c VulnerabilityItem =
  item_ID :: string
  item_Pkg :: string
  item_Version :: string
  item_FixVersion :: string
  item_Severity :: Severity
  item_Description :: string
  item_Links :: "string slice"
  item_Layer :: "Layer option"
  item_CweIDs :: "string slice"
  item_VendorAttributes :: "'c any gomap"

record Artifact =
  artifact_Repository :: string
  artifact_Digest :: string
  artifact_MimeType :: string

record Scanner =
  scanner_Name :: string
  scanner_Vendor :: string
  scanner_Version :: string

type_synonym Time = nat

record 'c ScanReport =
  report_GeneratedAt :: Time
  report_Scanner :: Scanner
  report_Artifact :: Artifact
  report_Severity :: Severity
  report_Vulnerabilities :: "'c VulnerabilityItem list"

text \<open>
  The transformer holds a \<open>Clock\<close>; \<open>Transform\<close> calls \<open>Now\<close> once, so the clock is the
  time that call returns. \<open>etc.GetScannerMetadata\<close> belongs to package \<open>etc\<close> and is a
  parameter of \<open>Transform\<close>.
\<close>

record transformer =
  clock_Now :: Time

subsection \<open>Per-item mapping\<close>

definition toLinks :: "string \<Rightarrow> string slice \<Rightarrow> string slice" where
  "toLinks primaryURL references =
     (if primaryURL \<noteq> '''' then Some [primaryURL]
      else if references = None then Some []
      else references)"

definition tunnelToHarborSeverityMap :: "(string \<times> Severity) list" where
  "tunnelToHarborSeverityMap =
     [(''CRITICAL'', SevCritical),
      (''HIGH'', SevHigh),
      (''MEDIUM'', SevMedium),
      (''LOW'', SevLow),
      (''UNKNOWN'', SevUnknown)]"

definition toHarborLayer :: "Layer option \<Rightarrow> Layer option" where
  "toHarborLayer tLayer =
     (case tLayer of
        None \<Rightarrow> None
      | Some l \<Rightarrow> Some \<lparr>layer_Digest = layer_Digest l, layer_DiffID = layer_DiffID l\<rparr>)"

text \<open>
  \<open>toHarborSeverity\<close> returns the severity together with the warnings it logged
  (\<open>slog.Warn\<close>): one entry, carrying the unrecognised string, when the lookup misses.
\<close>

definition toHarborSeverity :: "string \<Rightarrow> Severity \<times> string list" where
  "toHarborSeverity severity =
     (case map_of tunnelToHarborSeverityMap severity of
        None \<Rightarrow> (SevUnknown, [''Unknown tunnel severity severity='' @ severity])
      | Some harborSev \<Rightarrow> (harborSev, []))"

definition toVendorAttributes :: "'c gomap \<Rightarrow> 'c any gomap" where
  "toVendorAttributes info =
     (let attributes = fmempty
      in if len_map info > 0 then Some (fmupd ''CVSS'' (AnyCVSS info) attributes)
         else Some attributes)"

subsection \<open>Aggregate severity\<close>

text \<open>
  The loop of \<open>toHighestSeverity\<close>, with the running maximum as accumulator; the
  \<open>break\<close> is the branch that returns without looking at the rest.
\<close>

fun highest_loop :: "Severity \<Rightarrow> 'c VulnerabilityItem list \<Rightarrow> Severity" where
  "highest_loop highest [] = highest"
| "highest_loop highest (vln # vlns) =
     (if sev_ord (item_Severity vln) > sev_ord highest
      then (if item_Severity vln = SevCritical then item_Severity vln
            else highest_loop (item_Severity vln) vlns)
      else highest_loop highest vlns)"

definition toHighestSeverity :: "'c VulnerabilityItem list \<Rightarrow> Severity" where
  "toHighestSeverity vlns = highest_loop SevUnknown vlns"

subsection \<open>Transform\<close>

text \<open>
  The loop of \<open>Transform\<close> fills one item per source vulnerability, in order; the second
  component collects the warnings of \<open>toHarborSeverity\<close> in the order they are logged.
\<close>

fun transform_items :: "'c Vulnerability list \<Rightarrow> 'c VulnerabilityItem list \<times> string list" where
  "transform_items [] = ([], [])"
| "transform_items (v # source) =
     (let (sev, warned) = toHarborSeverity (vuln_Severity v);
          item = \<lparr>item_ID = vuln_VulnerabilityID v,
                  item_Pkg = vuln_PkgName v,
                  item_Version = vuln_InstalledVersion v,
                  item_FixVersion = vuln_FixedVersion v,
                  item_Severity = sev,
                  item_Description = vuln_Description v,
                  item_Links = toLinks (vuln_PrimaryURL v) (vuln_References v),
                  item_Layer = toHarborLayer (vuln_Layer v),
                  item_CweIDs = vuln_CweIDs v,
                  item_VendorAttributes = toVendorAttributes (vuln_CVSS v)\<rparr>;
          (items, warnings) = transform_items source
      in (item # items, warned @ warnings))"

definition Transform ::
  "transformer \<Rightarrow> Scanner \<Rightarrow> Artifact \<Rightarrow> 'c Vulnerability list \<Rightarrow> 'c ScanReport \<times> string list" where
  "Transform t scannerMetadata artifact source =
     (let (vulnerabilities, warnings) = transform_items source
      in (\<lparr>report_GeneratedAt = clock_Now t,
           report_Scanner = scannerMetadata,
           report_Artifact = artifact,
           report_Severity = toHighestSeverity vulnerabilities,
           report_Vulnerabilities = vulnerabilities\<rparr>, warnings))"

section \<open>Scan job store (package redis)\<close>

subsection \<open>Errors and outcomes\<close>

text \<open>
  Go errors are values. \<open>RedisNil\<close> is \<open>redis.Nil\<close>, the reply of the client for a key
  that does not exist; \<open>RedisError\<close> is any other error of the client (connection lost,
  timeout, ...); \<open>JsonError\<close> is an error of \<open>encoding/json\<close>;
  \<open>Wrap msg err\<close> is \<open>xerrors.Errorf("msg: %w", err)\<close> and \<open>Msg m\<close> is
  \<open>xerrors.Errorf\<close> of a message with no wrapped cause.
  A call either returns or panics (a nil pointer dereference).
\<close>

datatype error =
    RedisNil
  | RedisError string
  | JsonError string
  | Wrap string error
  | Msg string

datatype 'a outcome = Return 'a | Panic string

fun errors_Is :: "error \<Rightarrow> error \<Rightarrow> bool" where
  "errors_Is (Wrap m err) target = (Wrap m err = target \<or> errors_Is err target)"
| "errors_Is err target = (err = target)"

subsection \<open>Scan jobs and their encoding\<close>

text \<open>
  \<open>job.ScanJob\<close> is declared in package \<open>job\<close>; the store reads and writes the fields
  \<open>ID\<close>, \<open>Status\<close>, \<open>Error\<close> and \<open>Report\<close>. \<open>job.ScanJobStatus\<close> is an integer-coded
  enumeration that the store only copies.
\<close>

type_synonym ScanJobStatus = int

record 'c ScanJob =
  job_ID :: string
  job_Status :: ScanJobStatus
  job_Error :: string
  job_Report :: "'c ScanReport"

text \<open>
  \<open>json.Marshal\<close> and \<open>json.Unmarshal\<close> at type \<open>ScanJob\<close> belong to the Go standard
  library; the store is parameterised by them.
\<close>

record 'c json =
  Marshal :: "'c ScanJob \<Rightarrow> error + string"
  Unmarshal :: "string \<Rightarrow> error + 'c ScanJob"

subsection \<open>The Redis client\<close>

text \<open>
  The client of \<open>go-redis\<close> is external to the repository. Its state is the table of
  the server (key to value and time-to-live) and a schedule of faults: every command takes
  the next entry of the schedule, fails with that error if there is one and leaves the
  table alone, and otherwise runs on the table. An exhausted schedule means no fault.

  \<open>SetNX\<close> writes only when the key is absent and \<open>SetXX\<close> only when it is present;
  in both cases the command's error is nil unless the backend failed, and whether the
  write happened is reported only by the boolean value of the command.
  \<open>Get\<close> answers \<open>redis.Nil\<close> for a key that does not exist.
\<close>

type_synonym Duration = int

record redis =
  entries :: "string \<rightharpoonup> string \<times> Duration"
  faults :: "string option list"

record BoolCmd =
  cmd_Val :: bool
  cmd_Err :: "error option"

definition next_fault :: "redis \<Rightarrow> string option \<times> redis" where
  "next_fault r =
     (case faults r of
        [] \<Rightarrow> (None, r)
      | f # fs \<Rightarrow> (f, r\<lparr>faults := fs\<rparr>))"

definition redis_SetNX :: "redis \<Rightarrow> string \<Rightarrow> string \<Rightarrow> Duration \<Rightarrow> BoolCmd \<times> redis" where
  "redis_SetNX r key val expiration =
     (case next_fault r of
        (Some f, r') \<Rightarrow> (\<lparr>cmd_Val = False, cmd_Err = Some (RedisError f)\<rparr>, r')
      | (None, r') \<Rightarrow>
          (if entries r' key = None
           then (\<lparr>cmd_Val = True, cmd_Err = None\<rparr>,
                 r'\<lparr>entries := (entries r')(key \<mapsto> (val, expiration))\<rparr>)
           else (\<lparr>cmd_Val = False, cmd_Err = None\<rparr>, r')))"

definition redis_SetXX :: "redis \<Rightarrow> string \<Rightarrow> string \<Rightarrow> Duration \<Rightarrow> BoolCmd \<times> redis" where
  "redis_SetXX r key val expiration =
     (case next_fault r of
        (Some f, r') \<Rightarrow> (\<lparr>cmd_Val = False, cmd_Err = Some (RedisError f)\<rparr>, r')
      | (None, r') \<Rightarrow>
          (if entries r' key \<noteq> None
           then (\<lparr>cmd_Val = True, cmd_Err = None\<rparr>,
                 r'\<lparr>entries := (entries r')(key \<mapsto> (val, expiration))\<rparr>)
           else (\<lparr>cmd_Val = False, cmd_Err = None\<rparr>, r')))"

text \<open>\<open>redis_Get\<close> is \<open>rdb.Get(ctx, key).Result()\<close>: the value and the error.\<close>

definition redis_Get :: "redis \<Rightarrow> string \<Rightarrow> (string \<times> error option) \<times> redis" where
  "redis_Get r key =
     (case next_fault r of
        (Some f, r') \<Rightarrow> (('''', Some (RedisError f)), r')
      | (None, r') \<Rightarrow>
          (case entries r' key of
             None \<Rightarrow> (('''', Some RedisNil), r')
           | Some (val, expiration) \<Rightarrow> ((val, None), r')))"

subsection \<open>The store\<close>

text \<open>
  The debug messages of the store (\<open>slog.Debug\<close>) influence neither a result nor the
  table and are left out.
\<close>

record RedisStore =
  Namespace :: string
  ScanJobTTL :: Duration

record store =
  cfg :: RedisStore
  rdb :: redis

definition keyForScanJob :: "store \<Rightarrow> string \<Rightarrow> string" where
  "keyForScanJob s scanJobID = Namespace (cfg s) @ '':scan-job:'' @ scanJobID"

definition Create :: "'c json \<Rightarrow> store \<Rightarrow> 'c ScanJob \<Rightarrow> error option \<times> store" where
  "Create js s scanJob =
     (case Marshal js scanJob of
        Inl err \<Rightarrow> (Some (Wrap ''marshalling scan job'' err), s)
      | Inr bytes \<Rightarrow>
          (let key = keyForScanJob s (job_ID scanJob);
               (cmd, rdb') = redis_SetNX (rdb s) key bytes (ScanJobTTL (cfg s));
               s' = s\<lparr>rdb := rdb'\<rparr>
           in case cmd_Err cmd of
                Some err \<Rightarrow> (Some (Wrap ''creating scan job'' err), s')
              | None \<Rightarrow> (None, s')))"

definition update :: "'c json \<Rightarrow> store \<Rightarrow> 'c ScanJob \<Rightarrow> error option \<times> store" where
  "update js s scanJob =
     (case Marshal js scanJob of
        Inl err \<Rightarrow> (Some (Wrap ''marshalling scan job'' err), s)
      | Inr bytes \<Rightarrow>
          (let key = keyForScanJob s (job_ID scanJob);
               (cmd, rdb') = redis_SetXX (rdb s) key bytes (ScanJobTTL (cfg s));
               s' = s\<lparr>rdb := rdb'\<rparr>
           in case cmd_Err cmd of
                Some err \<Rightarrow> (Some (Wrap ''updating scan job'' err), s')
              | None \<Rightarrow> (None, s')))"

text \<open>\<open>Get\<close> returns the pair of Go: a pointer to the job (\<open>None\<close> is nil) and an error.\<close>

definition Get ::
  "'c json \<Rightarrow> store \<Rightarrow> string \<Rightarrow> ('c ScanJob option \<times> error option) \<times> store" where
  "Get js s scanJobID =
     (let key = keyForScanJob s scanJobID;
          ((val, err), rdb') = redis_Get (rdb s) key;
          s' = s\<lparr>rdb := rdb'\<rparr>
      in case err of
           Some e \<Rightarrow>
             (if errors_Is e RedisNil then ((None, None), s')
              else ((None, Some e), s'))
         | None \<Rightarrow>
             (case Unmarshal js val of
                Inl e \<Rightarrow> ((None, Some (Wrap ''unmarshalling scan job'' e)), s')
              | Inr scanJob \<Rightarrow> ((Some scanJob, None), s')))"

text \<open>
  \<open>UpdateStatus\<close> takes the variadic \<open>error ...string\<close> as a list and uses its first
  element when there is one.
\<close>

definition UpdateStatus ::
  "'c json \<Rightarrow> store \<Rightarrow> string \<Rightarrow> ScanJobStatus \<Rightarrow> string list \<Rightarrow> error option \<times> store" where
  "UpdateStatus js s scanJobID newStatus error_args =
     (let ((scanJob, err), s') = Get js s scanJobID
      in case scanJob of
           None \<Rightarrow> (Some (Msg (''scan job '' @ scanJobID @ '' not found'')), s')
         | Some job \<Rightarrow>
             (case err of
                Some e \<Rightarrow> (Some e, s')
              | None \<Rightarrow>
                  (let job1 = job\<lparr>job_Status := newStatus\<rparr>;
                       job2 = (case error_args of
                                 [] \<Rightarrow> job1
                               | e0 # _ \<Rightarrow> job1\<lparr>job_Error := e0\<rparr>)
                   in update js s' job2)))"

text \<open>
  \<open>UpdateReport\<close> checks the error of \<open>Get\<close> only; with no error and a nil job the
  assignment to \<open>scanJob.Report\<close> dereferences nil, and the call panics.
\<close>

definition UpdateReport ::
  "'c json \<Rightarrow> store \<Rightarrow> string \<Rightarrow> 'c ScanReport \<Rightarrow> error option outcome \<times> store" where
  "UpdateReport js s scanJobID report =
     (let ((scanJob, err), s') = Get js s scanJobID
      in case err of
           Some e \<Rightarrow> (Return (Some e), s')
         | None \<Rightarrow>
             (case scanJob of
                None \<Rightarrow> (Panic ''invalid memory address or nil pointer dereference'', s')
              | Some job \<Rightarrow>
                  (let (r, s'') = update js s' (job\<lparr>job_Report := report\<rparr>)
                   in (Return r, s''))))"

section \<open>Concrete instances\<close>

text \<open>
  Small concrete values at which the theorems below are instantiated. \<open>example_json\<close> is
  a stand-in codec on jobs with status 0 or 1: one character for the status, then the id,
  a bar and the error message; it rejects every string that does not start with a status
  character and decodes the report as \<open>example_report\<close>.
\<close>

definition example_report :: "nat ScanReport" where
  "example_report =
     \<lparr>report_GeneratedAt = 0,
      report_Scanner = \<lparr>scanner_Name = ''Tunnel'', scanner_Vendor = ''Khulnasoft'',
                        scanner_Version = ''dev''\<rparr>,
      report_Artifact = \<lparr>artifact_Repository = ''library/alpine'', artifact_Digest = ''sha256:0'',
                         artifact_MimeType = ''application/vnd.oci.image.manifest.v1+json''\<rparr>,
      report_Severity = SevUnknown,
      report_Vulnerabilities = []\<rparr>"

fun example_Marshal :: "nat ScanJob \<Rightarrow> error + string" where
  "example_Marshal job =
     (if job_Status job = 0 then Inr (CHR ''0'' # job_ID job @ ''|'' @ job_Error job)
      else if job_Status job = 1 then Inr (CHR ''1'' # job_ID job @ ''|'' @ job_Error job)
      else Inl (JsonError ''unsupported value''))"

fun example_Unmarshal :: "string \<Rightarrow> error + nat ScanJob" where
  "example_Unmarshal [] = Inl (JsonError ''unexpected end of JSON input'')"
| "example_Unmarshal (c # rest) =
     (if c = CHR ''0'' \<or> c = CHR ''1''
      then Inr \<lparr>job_ID = takeWhile (\<lambda>x. x \<noteq> CHR ''|'') rest,
                job_Status = (if c = CHR ''0'' then 0 else 1),
                job_Error = drop 1 (dropWhile (\<lambda>x. x \<noteq> CHR ''|'') rest),
                job_Report = example_report\<rparr>
      else Inl (JsonError ''invalid character''))"

definition example_json :: "nat json" where
  "example_json = \<lparr>Marshal = example_Marshal, Unmarshal = example_Unmarshal\<rparr>"

definition example_store :: store where
  "example_store =
     \<lparr>cfg = \<lparr>Namespace = ''harbor'', ScanJobTTL = 3600\<rparr>,
      rdb = \<lparr>entries = Map.empty, faults = []\<rparr>\<rparr>"

definition example_job :: "nat ScanJob" where
  "example_job =
     \<lparr>job_ID = ''job-1'', job_Status = 0, job_Error = '''', job_Report = example_report\<rparr>"

text \<open>The store after \<open>example_job\<close> has been created in the empty store.\<close>

definition example_store_created :: store where
  "example_store_created = snd (Create example_json example_store example_job)"

text \<open>The same store, with a backend whose next command fails.\<close>

definition example_store_faulty :: store where
  "example_store_faulty =
     example_store_created
       \<lparr>rdb := (rdb example_store_created)\<lparr>faults := [Some ''connection refused'']\<rparr>\<rparr>"

text \<open>A store whose only value is not the encoding of a job.\<close>

definition example_store_corrupt :: store where
  "example_store_corrupt =
     example_store\<lparr>rdb := \<lparr>entries = [''harbor:scan-job:job-2'' \<mapsto> (''{'', 3600)], faults = []\<rparr>\<rparr>"

definition example_vuln :: "nat Vulnerability" where
  "example_vuln =
     \<lparr>vuln_VulnerabilityID = ''CVE-2019-1549'',
      vuln_PkgName = ''openssl'',
      vuln_InstalledVersion = ''1.1.1c-r0'',
      vuln_FixedVersion = ''1.1.1d-r0'',
      vuln_Severity = ''MEDIUM'',
      vuln_Description = '''',
      vuln_PrimaryURL = '''',
      vuln_References = None,
      vuln_Layer = None,
      vuln_CweIDs = None,
      vuln_CVSS = None\<rparr>"

definition example_source :: "nat Vulnerability list" where
  "example_source =
     [example_vuln\<lparr>vuln_PrimaryURL := ''https://avd.example/cve-2019-1549'',
                   vuln_References := Some [''https://a.example'', ''https://b.example''],
                   vuln_CVSS := Some (fmupd ''nvd'' 7 fmempty)\<rparr>,
      example_vuln\<lparr>vuln_References := Some [''https://a.example'', ''https://b.example''],
                   vuln_Severity := ''WHATEVER'',
                   vuln_CVSS := Some fmempty\<rparr>,
      example_vuln]"

definition example_transformer :: transformer where
  "example_transformer = \<lparr>clock_Now = 1700\<rparr>"

definition example_items :: "nat VulnerabilityItem list" where
  "example_items =
     report_Vulnerabilities
       (fst (Transform example_transformer (report_Scanner example_report)
               (report_Artifact example_report) example_source))"

definition example_item :: "string \<Rightarrow> Severity \<Rightarrow> nat VulnerabilityItem" where
  "example_item i sev =
     \<lparr>item_ID = i, item_Pkg = ''openssl'', item_Version = ''1.1.1c-r0'', item_FixVersion = '''',
      item_Severity = sev, item_Description = '''', item_Links = Some [], item_Layer = None,
      item_CweIDs = None, item_VendorAttributes = Some fmempty\<rparr>"

section \<open>Properties of the transformer\<close>

subsection \<open>Severity ordinals\<close>

lemma sev_ord_le_5: "sev_ord s \<le> 5"
  by (cases s) simp_all

lemma sev_ord_inj: "sev_ord a = sev_ord b \<Longrightarrow> a = b"
  by (cases a; cases b) simp_all

subsection \<open>The aggregate is the maximum\<close>

text \<open>
  Whatever the running maximum is when the loop starts, the loop ends with the largest
  ordinal among it and the items. The early exit is sound because no ordinal exceeds the
  one of \<open>SevCritical\<close>.
\<close>

lemma highest_loop_Max:
  "sev_ord (highest_loop h vlns)
     = Max (insert (sev_ord h) (set (map (sev_ord \<circ> item_Severity) vlns)))"
proof (induction vlns arbitrary: h)
  case Nil
  show ?case by simp
next
  case (Cons vln vlns)
  let ?S = "set (map (sev_ord \<circ> item_Severity) vlns)"
  let ?v = "sev_ord (item_Severity vln)"
  have fin: "finite ?S" by simp
  show ?case
  proof (cases "?v > sev_ord h")
    case False
    then have "highest_loop h (vln # vlns) = highest_loop h vlns" by simp
    moreover have "Max (insert (sev_ord h) (insert ?v ?S)) = Max (insert (sev_ord h) ?S)"
    proof -
      have "sev_ord h \<le> Max (insert (sev_ord h) ?S)" using fin by (intro Max_ge) auto
      with False have "?v \<le> Max (insert (sev_ord h) ?S)"
        by linarith
      then have "max ?v (Max (insert (sev_ord h) ?S)) = Max (insert (sev_ord h) ?S)"
        by (rule max_absorb2)
      moreover have "Max (insert ?v (insert (sev_ord h) ?S)) = max ?v (Max (insert (sev_ord h) ?S))"
        using fin by (intro Max_insert) auto
      ultimately show ?thesis by (simp add: insert_commute)
    qed
    ultimately show ?thesis using Cons.IH[of h] by simp
  next
    case True
    note gt = True
    show ?thesis
    proof (cases "item_Severity vln = SevCritical")
      case True
      have "\<forall>x \<in> insert (sev_ord h) (insert 5 ?S). x \<le> 5"
        using sev_ord_le_5 by auto
      then have "Max (insert (sev_ord h) (insert 5 ?S)) = 5"
        using fin by (intro Max_eqI) auto
      then show ?thesis using True gt by simp
    next
      case False
      then have "highest_loop h (vln # vlns) = highest_loop (item_Severity vln) vlns"
        using gt by simp
      moreover have "Max (insert (sev_ord h) (insert ?v ?S)) = Max (insert ?v ?S)"
      proof -
        have "?v \<le> Max (insert ?v ?S)"
          using fin by (intro Max_ge) auto
        with gt have "sev_ord h \<le> Max (insert ?v ?S)"
          by linarith
        then have "max (sev_ord h) (Max (insert ?v ?S)) = Max (insert ?v ?S)"
          by (rule max_absorb2)
        moreover have "Max (insert (sev_ord h) (insert ?v ?S)) = max (sev_ord h) (Max (insert ?v ?S))"
          using fin by (intro Max_insert) auto
        ultimately show ?thesis by simp
      qed
      ultimately show ?thesis using Cons.IH[of "item_Severity vln"] by simp
    qed
  qed
qed

text \<open>
  Claim C5. For every list of vulnerability items, the ordinal of the aggregate severity
  is the maximum of the items' ordinals (with the ordinal of Unknown as the value for the
  empty list), so it is at least the ordinal of every item, it is the same for every
  reordering of the list, and it is Unknown for the empty list. The loop that is measured
  here is the one with the early exit at Critical.
\<close>

theorem toHighestSeverity_is_maximum:
  "sev_ord (toHighestSeverity vlns)
     = Max (insert (sev_ord SevUnknown) (set (map (sev_ord \<circ> item_Severity) vlns)))
   \<and> (\<forall>vln \<in> set vlns. sev_ord (item_Severity vln) \<le> sev_ord (toHighestSeverity vlns))
   \<and> (\<forall>vlns'. mset vlns' = mset vlns \<longrightarrow> toHighestSeverity vlns' = toHighestSeverity vlns)
   \<and> toHighestSeverity ([] :: 'c VulnerabilityItem list) = SevUnknown"
proof (intro conjI ballI allI impI)
  show eq: "sev_ord (toHighestSeverity vlns)
     = Max (insert (sev_ord SevUnknown) (set (map (sev_ord \<circ> item_Severity) vlns)))"
    unfolding toHighestSeverity_def by (rule highest_loop_Max)
  show "sev_ord (item_Severity vln) \<le> sev_ord (toHighestSeverity vlns)"
    if "vln \<in> set vlns" for vln
    using that unfolding eq by (intro Max_ge) auto
  show "toHighestSeverity vlns' = toHighestSeverity vlns" if "mset vlns' = mset vlns" for vlns'
  proof -
    from that have "set vlns' = set vlns" by (rule mset_eq_setD)
    then have "sev_ord (toHighestSeverity vlns') = sev_ord (toHighestSeverity vlns)"
      unfolding toHighestSeverity_def highest_loop_Max by simp
    then show ?thesis by (rule sev_ord_inj)
  qed
  show "toHighestSeverity ([] :: 'c VulnerabilityItem list) = SevUnknown"
    by (simp add: toHighestSeverity_def)
qed

text \<open>
  Claim C5 at the items Medium, Critical, High: the aggregate is Critical, it is not below
  the item that follows the Critical one, and the reversed list has the same aggregate.
\<close>

theorem toHighestSeverity_is_maximum_witness:
  "toHighestSeverity
     [example_item ''a'' SevMedium, example_item ''b'' SevCritical, example_item ''c'' SevHigh]
     = SevCritical
   \<and> sev_ord (item_Severity (example_item ''c'' SevHigh))
        \<le> sev_ord (toHighestSeverity
             [example_item ''a'' SevMedium, example_item ''b'' SevCritical, example_item ''c'' SevHigh])
   \<and> toHighestSeverity
       [example_item ''c'' SevHigh, example_item ''b'' SevCritical, example_item ''a'' SevMedium]
       = toHighestSeverity
           [example_item ''a'' SevMedium, example_item ''b'' SevCritical, example_item ''c'' SevHigh]"
proof -
  let ?vlns = "[example_item ''a'' SevMedium, example_item ''b'' SevCritical, example_item ''c'' SevHigh]"
  let ?vlns' = "[example_item ''c'' SevHigh, example_item ''b'' SevCritical, example_item ''a'' SevMedium]"
  note T = toHighestSeverity_is_maximum [of ?vlns]
  have m: "mset ?vlns' = mset ?vlns" by (simp add: add.commute)
  have i: "example_item ''c'' SevHigh \<in> set ?vlns" by simp
  have 1: "toHighestSeverity ?vlns = SevCritical"
    by (simp add: toHighestSeverity_def example_item_def)
  from T i
  have 2: "sev_ord (item_Severity (example_item ''c'' SevHigh)) \<le> sev_ord (toHighestSeverity ?vlns)"
    by blast
  from T m have 3: "toHighestSeverity ?vlns' = toHighestSeverity ?vlns"
    by blast
  from 1 2 3 show ?thesis by blast
qed

subsection \<open>The items of a report\<close>

text \<open>
  The \<open>i\<close>-th item of the report is built from the \<open>i\<close>-th source vulnerability.
\<close>

lemma transform_items_nth:
  assumes "i < length source"
  shows "item_Links (fst (transform_items source) ! i)
           = toLinks (vuln_PrimaryURL (source ! i)) (vuln_References (source ! i))
       \<and> item_VendorAttributes (fst (transform_items source) ! i)
           = toVendorAttributes (vuln_CVSS (source ! i))
       \<and> item_Severity (fst (transform_items source) ! i)
           = fst (toHarborSeverity (vuln_Severity (source ! i)))"
  using assms
proof (induction source arbitrary: i)
  case Nil
  then show ?case by simp
next
  case (Cons v source)
  show ?case
  proof (cases i)
    case 0
    then show ?thesis by (simp add: Let_def case_prod_beta)
  next
    case (Suc k)
    with Cons.prems have "k < length source" by simp
    from Cons.IH[OF this] show ?thesis
      using Suc by (simp add: Let_def case_prod_beta)
  qed
qed

lemma Transform_vulnerabilities:
  "report_Vulnerabilities (fst (Transform t scannerMetadata artifact source))
     = fst (transform_items source)"
  by (simp add: Transform_def case_prod_beta)

lemma example_source_length:
  "0 < length example_source" "1 < length example_source" "2 < length example_source"
  by (simp_all add: example_source_def)

text \<open>
  Claim C6. The link list of the item transformed from a source vulnerability is never
  nil; it is the primary URL alone when that URL is not empty, otherwise the references
  as they are when they are not nil, and otherwise the empty list.
\<close>

theorem Transform_links:
  assumes "i < length source"
  shows "let v = source ! i;
             links = item_Links
                       (report_Vulnerabilities (fst (Transform t scannerMetadata artifact source)) ! i)
         in links \<noteq> None
          \<and> (vuln_PrimaryURL v \<noteq> '''' \<longrightarrow> links = Some [vuln_PrimaryURL v])
          \<and> (vuln_PrimaryURL v = '''' \<and> vuln_References v \<noteq> None \<longrightarrow> links = vuln_References v)
          \<and> (vuln_PrimaryURL v = '''' \<and> vuln_References v = None \<longrightarrow> links = Some [])"
  using transform_items_nth[OF assms]
  by (auto simp: Transform_vulnerabilities toLinks_def Let_def)

text \<open>
  Claim C6 at a source of three vulnerabilities: one with a primary URL and references,
  one with references only, one with neither.
\<close>

theorem Transform_links_witness:
  "item_Links (example_items ! 0) = Some [''https://avd.example/cve-2019-1549'']
   \<and> item_Links (example_items ! 1) = Some [''https://a.example'', ''https://b.example'']
   \<and> item_Links (example_items ! 2) = Some []"
proof -
  note T = Transform_links [of _ example_source example_transformer
      "report_Scanner example_report" "report_Artifact example_report", folded example_items_def]
  from T [OF example_source_length(1)]
  have a: "item_Links (example_items ! 0) = Some [''https://avd.example/cve-2019-1549'']"
    by (simp add: Let_def example_source_def example_vuln_def)
  from T [OF example_source_length(2)]
  have b: "item_Links (example_items ! 1) = Some [''https://a.example'', ''https://b.example'']"
    by (simp add: Let_def example_source_def example_vuln_def)
  from T [OF example_source_length(3)]
  have c: "item_Links (example_items ! 2) = Some []"
    by (simp add: Let_def example_source_def example_vuln_def)
  from a b c show ?thesis by simp
qed

text \<open>A Go map has a positive length exactly when it is not nil and holds an entry.\<close>

lemma len_map_pos:
  "len_map info > 0 \<longleftrightarrow> (\<exists>m k x. info = Some m \<and> fmlookup m k = Some x)"
proof (cases info)
  case None
  then show ?thesis by simp
next
  case (Some m)
  have "fcard (fmdom m) > 0 \<longleftrightarrow> fmdom m \<noteq> {||}"
    by (metis fcard_fempty fcard_seteq fempty_fsubsetI gr0I less_numeral_extra(3) zero_order(1))
  also have "\<dots> \<longleftrightarrow> (\<exists>k x. fmlookup m k = Some x)"
    by (metis fmlookup_dom_iff ex_fin_conv)
  finally show ?thesis using Some by simp
qed

text \<open>
  Claim C7. The vendor attributes of the item transformed from a source vulnerability are
  never nil, and they hold the key CVSS exactly when the source CVSS map holds an entry;
  the value under that key is the source map.
\<close>

theorem Transform_vendor_attributes:
  assumes "i < length source"
  shows "\<exists>attributes.
           item_VendorAttributes
             (report_Vulnerabilities (fst (Transform t scannerMetadata artifact source)) ! i)
             = Some attributes
         \<and> (''CVSS'' |\<in>| fmdom attributes
              \<longleftrightarrow> (\<exists>m k x. vuln_CVSS (source ! i) = Some m \<and> fmlookup m k = Some x))
         \<and> (''CVSS'' |\<in>| fmdom attributes
              \<longrightarrow> fmlookup attributes ''CVSS'' = Some (AnyCVSS (vuln_CVSS (source ! i))))"
proof -
  let ?info = "vuln_CVSS (source ! i)"
  have eq: "item_VendorAttributes
             (report_Vulnerabilities (fst (Transform t scannerMetadata artifact source)) ! i)
            = toVendorAttributes ?info"
    using transform_items_nth[OF assms] by (simp add: Transform_vulnerabilities)
  show ?thesis
  proof (cases "len_map ?info > 0")
    case True
    then have "toVendorAttributes ?info = Some (fmupd ''CVSS'' (AnyCVSS ?info) fmempty)"
      by (simp add: toVendorAttributes_def)
    moreover from True have "\<exists>m k x. ?info = Some m \<and> fmlookup m k = Some x"
      by (simp add: len_map_pos)
    ultimately show ?thesis unfolding eq by simp
  next
    case False
    then have "toVendorAttributes ?info = Some fmempty"
      by (simp add: toVendorAttributes_def)
    moreover from False have "\<not> (\<exists>m k x. ?info = Some m \<and> fmlookup m k = Some x)"
      by (simp add: len_map_pos)
    ultimately show ?thesis unfolding eq by simp
  qed
qed

text \<open>
  Claim C7 at a vulnerability with one CVSS entry and at one with an empty CVSS map.
\<close>

theorem Transform_vendor_attributes_witness:
  "''CVSS'' |\<in>| fmdom (the (item_VendorAttributes (example_items ! 0)))
   \<and> fmlookup (the (item_VendorAttributes (example_items ! 0))) ''CVSS''
       = Some (AnyCVSS (Some (fmupd ''nvd'' 7 fmempty)))
   \<and> item_VendorAttributes (example_items ! 1) \<noteq> None
   \<and> ''CVSS'' |\<notin>| fmdom (the (item_VendorAttributes (example_items ! 1)))"
proof -
  note T = Transform_vendor_attributes [of _ example_source example_transformer
      "report_Scanner example_report" "report_Artifact example_report", folded example_items_def]
  have c0: "vuln_CVSS (example_source ! 0) = Some (fmupd ''nvd'' 7 fmempty)"
    and c1: "vuln_CVSS (example_source ! 1) = Some fmempty"
    by (simp_all add: example_source_def)
  from T [OF example_source_length(1)] obtain a0 where
    a0: "item_VendorAttributes (example_items ! 0) = Some a0"
        "''CVSS'' |\<in>| fmdom a0
           \<longleftrightarrow> (\<exists>m k x. vuln_CVSS (example_source ! 0) = Some m \<and> fmlookup m k = Some x)"
        "''CVSS'' |\<in>| fmdom a0
           \<longrightarrow> fmlookup a0 ''CVSS'' = Some (AnyCVSS (vuln_CVSS (example_source ! 0)))"
    by blast
  have "fmlookup (fmupd ''nvd'' (7::nat) fmempty) ''nvd'' = Some 7" by simp
  with c0 a0(2) have in0: "''CVSS'' |\<in>| fmdom a0" by blast
  from T [OF example_source_length(2)] obtain a1 where
    a1: "item_VendorAttributes (example_items ! 1) = Some a1"
        "''CVSS'' |\<in>| fmdom a1
           \<longleftrightarrow> (\<exists>m k x. vuln_CVSS (example_source ! 1) = Some m \<and> fmlookup m k = Some x)"
    by blast
  from a1(2) c1 have out1: "''CVSS'' |\<notin>| fmdom a1" by simp
  from a0 in0 c0 a1(1) out1 show ?thesis by simp
qed

text \<open>
  Claim C8. Each of the five strings of the table is mapped to its severity, every other
  string is mapped to Unknown (with one warning and no failure), and the severity of each
  transformed item is this mapping of the source's severity string.
\<close>

theorem toHarborSeverity_table:
  "fst (toHarborSeverity ''CRITICAL'') = SevCritical
   \<and> fst (toHarborSeverity ''HIGH'') = SevHigh
   \<and> fst (toHarborSeverity ''MEDIUM'') = SevMedium
   \<and> fst (toHarborSeverity ''LOW'') = SevLow
   \<and> fst (toHarborSeverity ''UNKNOWN'') = SevUnknown
   \<and> (severity \<notin> {''CRITICAL'', ''HIGH'', ''MEDIUM'', ''LOW'', ''UNKNOWN''}
        \<longrightarrow> toHarborSeverity severity
              = (SevUnknown, [''Unknown tunnel severity severity='' @ severity]))
   \<and> (\<forall>i < length source.
         item_Severity (report_Vulnerabilities (fst (Transform t scannerMetadata artifact source)) ! i)
           = fst (toHarborSeverity (vuln_Severity (source ! i))))"
proof (intro conjI allI impI)
  show "item_Severity (report_Vulnerabilities (fst (Transform t scannerMetadata artifact source)) ! i)
           = fst (toHarborSeverity (vuln_Severity (source ! i)))" if "i < length source" for i
    using transform_items_nth[OF that] by (simp add: Transform_vulnerabilities)
qed (simp_all add: toHarborSeverity_def tunnelToHarborSeverityMap_def)

text \<open>
  Claim C8 at the string WHATEVER, and at the items whose source strings are MEDIUM and
  WHATEVER.
\<close>

theorem toHarborSeverity_table_witness:
  "toHarborSeverity ''WHATEVER'' = (SevUnknown, [''Unknown tunnel severity severity=WHATEVER''])
   \<and> item_Severity (example_items ! 0) = SevMedium
   \<and> item_Severity (example_items ! 1) = SevUnknown"
proof -
  note T = toHarborSeverity_table [of "''WHATEVER''" example_source example_transformer
      "report_Scanner example_report" "report_Artifact example_report", folded example_items_def]
  have s0: "vuln_Severity (example_source ! 0) = ''MEDIUM''"
    and s1: "vuln_Severity (example_source ! 1) = ''WHATEVER''"
    by (simp_all add: example_source_def example_vuln_def)
  have n: "''WHATEVER'' \<notin> {''CRITICAL'', ''HIGH'', ''MEDIUM'', ''LOW'', ''UNKNOWN''}" by simp
  from T n
  have w: "toHarborSeverity ''WHATEVER'' = (SevUnknown, [''Unknown tunnel severity severity=WHATEVER''])"
    by simp
  from T example_source_length(1) s0 have a: "item_Severity (example_items ! 0) = SevMedium"
    by metis
  from T example_source_length(2) s1 w have b: "item_Severity (example_items ! 1) = SevUnknown"
    by (metis fst_conv)
  from w a b show ?thesis by simp
qed

section \<open>Properties of the store\<close>

subsection \<open>The client commands\<close>

lemma redis_SetNX_present:
  "entries r key = Some v \<Longrightarrow> entries (snd (redis_SetNX r key val ex)) = entries r"
  by (auto simp: redis_SetNX_def next_fault_def split: list.splits option.splits)

lemma redis_SetNX_err:
  "cmd_Err (fst (redis_SetNX r key val ex)) = map_option RedisError (fst (next_fault r))"
  by (auto simp: redis_SetNX_def next_fault_def split: list.splits option.splits)

lemma redis_Get_entries: "entries (snd (redis_Get r key)) = entries r"
  by (auto simp: redis_Get_def next_fault_def split: list.splits option.splits)

lemma example_store_created_eq:
  "example_store_created =
     \<lparr>cfg = \<lparr>Namespace = ''harbor'', ScanJobTTL = 3600\<rparr>,
      rdb = \<lparr>entries = [''harbor:scan-job:job-1'' \<mapsto> (''0job-1|'', 3600)], faults = []\<rparr>\<rparr>"
  by (simp add: example_store_created_def Create_def example_json_def example_store_def
      example_job_def keyForScanJob_def redis_SetNX_def next_fault_def)

subsection \<open>Create\<close>

text \<open>
  Claim C1, as stated, fails: after \<open>example_job\<close> has been created, creating a job with
  the same id again returns no error at all, hence no conflict error.
\<close>

theorem Create_existing_id_counterexample:
  "entries (rdb example_store_created) (keyForScanJob example_store_created ''job-1'')
     = Some (''0job-1|'', 3600)
   \<and> fst (Create example_json example_store_created (example_job\<lparr>job_Status := 1\<rparr>)) = None"
  by (simp add: example_store_created_eq Create_def example_json_def
      example_job_def keyForScanJob_def redis_SetNX_def next_fault_def)

text \<open>
  Claim C1, amended. For every scan job id already present in the store, a second call to
  create with the same id writes nothing, so the stored record remains the first one, and
  when the encoding and the backend call succeed the call returns no error.
\<close>

theorem Create_existing_id_keeps_first:
  assumes "entries (rdb s) (keyForScanJob s (job_ID scanJob)) = Some first"
  shows "entries (rdb (snd (Create js s scanJob))) = entries (rdb s)
       \<and> (\<forall>bytes. Marshal js scanJob = Inr bytes \<and> fst (next_fault (rdb s)) = None
             \<longrightarrow> fst (Create js s scanJob) = None)"
proof (cases "Marshal js scanJob")
  case (Inl e)
  then show ?thesis by (simp add: Create_def)
next
  case (Inr bytes)
  let ?key = "keyForScanJob s (job_ID scanJob)"
  obtain cmd rdb' where c: "redis_SetNX (rdb s) ?key bytes (ScanJobTTL (cfg s)) = (cmd, rdb')"
    by (cases "redis_SetNX (rdb s) ?key bytes (ScanJobTTL (cfg s))")
  have e: "entries rdb' = entries (rdb s)"
    using redis_SetNX_present[OF assms, of bytes "ScanJobTTL (cfg s)"] c by simp
  have f: "cmd_Err cmd = map_option RedisError (fst (next_fault (rdb s)))"
    using redis_SetNX_err[of "rdb s" ?key bytes "ScanJobTTL (cfg s)"] c by simp
  show ?thesis
    using Inr c e f by (auto simp: Create_def Let_def split: option.splits)
qed

text \<open>
  Claim C1, amended, at the store that holds \<open>example_job\<close> and a second job with the same
  id and another status.
\<close>

theorem Create_existing_id_keeps_first_witness:
  "entries (rdb (snd (Create example_json example_store_created (example_job\<lparr>job_Status := 1\<rparr>))))
     = entries (rdb example_store_created)
   \<and> fst (Create example_json example_store_created (example_job\<lparr>job_Status := 1\<rparr>)) = None"
proof -
  let ?job = "example_job\<lparr>job_Status := 1\<rparr>"
  have h: "entries (rdb example_store_created) (keyForScanJob example_store_created (job_ID ?job))
      = Some (''0job-1|'', 3600)"
    by (simp add: example_store_created_eq keyForScanJob_def example_job_def)
  have m: "Marshal example_json ?job = Inr ''1job-1|''"
    by (simp add: example_json_def example_job_def)
  have n: "fst (next_fault (rdb example_store_created)) = None"
    by (simp add: example_store_created_eq next_fault_def)
  from Create_existing_id_keeps_first [OF h, of example_json] m n show ?thesis by blast
qed

subsection \<open>Get\<close>

lemma Get_entries: "entries (rdb (snd (Get js s scanJobID))) = entries (rdb s)"
proof -
  obtain val err rdb' where g: "redis_Get (rdb s) (keyForScanJob s scanJobID) = ((val, err), rdb')"
    by (metis prod.collapse)
  then have "entries rdb' = entries (rdb s)"
    using redis_Get_entries[of "rdb s" "keyForScanJob s scanJobID"] by simp
  then show ?thesis
    using g by (auto simp: Get_def Let_def split: option.splits sum.splits)
qed

lemma Get_cfg: "cfg (snd (Get js s scanJobID)) = cfg s"
  by (auto simp: Get_def Let_def case_prod_beta split: option.splits sum.splits)

lemma Get_absent:
  assumes "entries (rdb s) (keyForScanJob s scanJobID) = None"
  shows "fst (fst (Get js s scanJobID)) = None"
  using assms
  by (auto simp: Get_def redis_Get_def next_fault_def split: list.splits option.splits sum.splits)

lemma Get_no_fault:
  assumes "fst (next_fault (rdb s)) = None"
  shows "fst (Get js s scanJobID) =
     (case entries (rdb s) (keyForScanJob s scanJobID) of
        None \<Rightarrow> (None, None)
      | Some (val, expiration) \<Rightarrow>
          (case Unmarshal js val of
             Inl e \<Rightarrow> (None, Some (Wrap ''unmarshalling scan job'' e))
           | Inr job \<Rightarrow> (Some job, None)))"
  using assms
  by (auto simp: Get_def redis_Get_def next_fault_def Let_def
      split: list.splits option.splits sum.splits)

lemma Get_Some_job:
  assumes "fst (Get js s scanJobID) = (Some job, err)"
  shows "\<exists>val expiration. entries (rdb s) (keyForScanJob s scanJobID) = Some (val, expiration)
           \<and> Unmarshal js val = Inr job \<and> err = None"
  using assms
  by (auto simp: Get_def redis_Get_def next_fault_def Let_def
      split: list.splits option.splits sum.splits if_splits)

text \<open>
  Claim C9. When the backend answers, \<open>Get\<close> returns no job and no error for a key that
  does not exist, the wrapped decoding error for a key whose value cannot be decoded, and
  the decoded job with no error for a key whose value can; it never changes the table.
\<close>

theorem Get_absent_corrupt_present:
  assumes "fst (next_fault (rdb s)) = None"
  shows "(entries (rdb s) (keyForScanJob s scanJobID) = None
            \<longrightarrow> fst (Get js s scanJobID) = (None, None))
       \<and> (\<forall>val expiration e.
             entries (rdb s) (keyForScanJob s scanJobID) = Some (val, expiration)
             \<and> Unmarshal js val = Inl e
            \<longrightarrow> fst (Get js s scanJobID) = (None, Some (Wrap ''unmarshalling scan job'' e)))
       \<and> (\<forall>val expiration job.
             entries (rdb s) (keyForScanJob s scanJobID) = Some (val, expiration)
             \<and> Unmarshal js val = Inr job
            \<longrightarrow> fst (Get js s scanJobID) = (Some job, None))
       \<and> entries (rdb (snd (Get js s scanJobID))) = entries (rdb s)"
  by (simp add: Get_no_fault[OF assms] Get_entries)

text \<open>
  Claim C9 at the empty store, at a store with an undecodable value and at the store that
  holds \<open>example_job\<close>.
\<close>

theorem Get_absent_corrupt_present_witness:
  "fst (Get example_json example_store ''job-1'') = (None, None)
   \<and> fst (Get example_json example_store_corrupt ''job-2'')
       = (None, Some (Wrap ''unmarshalling scan job'' (JsonError ''invalid character'')))
   \<and> fst (Get example_json example_store_created ''job-1'') = (Some example_job, None)"
proof -
  have f1: "fst (next_fault (rdb example_store)) = None"
    by (simp add: example_store_def next_fault_def)
  have f2: "fst (next_fault (rdb example_store_corrupt)) = None"
    by (simp add: example_store_corrupt_def next_fault_def)
  have f3: "fst (next_fault (rdb example_store_created)) = None"
    by (simp add: example_store_created_eq next_fault_def)
  have e1: "entries (rdb example_store) (keyForScanJob example_store ''job-1'') = None"
    by (simp add: example_store_def)
  have e2: "entries (rdb example_store_corrupt) (keyForScanJob example_store_corrupt ''job-2'')
      = Some (''{'', 3600)"
    by (simp add: example_store_corrupt_def example_store_def keyForScanJob_def)
  have u2: "Unmarshal example_json ''{'' = Inl (JsonError ''invalid character'')"
    by (simp add: example_json_def)
  have e3: "entries (rdb example_store_created) (keyForScanJob example_store_created ''job-1'')
      = Some (''0job-1|'', 3600)"
    by (simp add: example_store_created_eq keyForScanJob_def)
  have u3: "Unmarshal example_json ''0job-1|'' = Inr example_job"
    by (simp add: example_json_def example_job_def)
  from Get_absent_corrupt_present [OF f1, of "''job-1''" example_json] e1
  have a: "fst (Get example_json example_store ''job-1'') = (None, None)" by blast
  from Get_absent_corrupt_present [OF f2, of "''job-2''" example_json] e2 u2
  have b: "fst (Get example_json example_store_corrupt ''job-2'')
       = (None, Some (Wrap ''unmarshalling scan job'' (JsonError ''invalid character'')))"
    by blast
  from Get_absent_corrupt_present [OF f3, of "''job-1''" example_json] e3 u3
  have c: "fst (Get example_json example_store_created ''job-1'') = (Some example_job, None)"
    by blast
  from a b c show ?thesis by simp
qed

subsection \<open>UpdateReport\<close>

text \<open>
  Claim C2, at the empty store: the key of job-1 does not exist, and \<open>UpdateReport\<close> does
  not return an error, it panics.
\<close>

theorem UpdateReport_absent_id_panics:
  "entries (rdb example_store) (keyForScanJob example_store ''job-1'') = None
   \<and> fst (UpdateReport example_json example_store ''job-1'' example_report)
       = Panic ''invalid memory address or nil pointer dereference''"
  by (simp add: UpdateReport_def Get_def redis_Get_def next_fault_def example_store_def
      keyForScanJob_def)

subsection \<open>UpdateStatus\<close>

text \<open>
  Claim C3, at a store that holds job-1 and whose backend refuses the connection: \<open>Get\<close>
  returns the backend error, and \<open>UpdateStatus\<close> returns the not-found error in its place.
\<close>

theorem UpdateStatus_backend_failure_reported_as_not_found:
  "fst (Get example_json example_store_faulty ''job-1'')
     = (None, Some (RedisError ''connection refused''))
   \<and> fst (UpdateStatus example_json example_store_faulty ''job-1'' 1 [])
       = Some (Msg ''scan job job-1 not found'')"
  by (simp add: example_store_faulty_def example_store_created_eq UpdateStatus_def Get_def
      redis_Get_def next_fault_def keyForScanJob_def)

text \<open>
  Claim C4. For every job id whose key is absent from the store, \<open>UpdateStatus\<close> returns
  the not-found error for that id and leaves the table as it was.
\<close>

theorem UpdateStatus_absent_id_not_found:
  assumes "entries (rdb s) (keyForScanJob s scanJobID) = None"
  shows "fst (UpdateStatus js s scanJobID newStatus error_args)
           = Some (Msg (''scan job '' @ scanJobID @ '' not found''))
       \<and> entries (rdb (snd (UpdateStatus js s scanJobID newStatus error_args))) = entries (rdb s)"
proof -
  obtain err s' where g: "Get js s scanJobID = ((None, err), s')"
    using Get_absent[OF assms, of js] by (metis prod.collapse)
  have "entries (rdb s') = entries (rdb s)"
    using Get_entries[of js s scanJobID] g by simp
  then show ?thesis
    using g by (simp add: UpdateStatus_def)
qed

text \<open>Claim C4 at the empty store, with a message supplied.\<close>

theorem UpdateStatus_absent_id_not_found_witness:
  "fst (UpdateStatus example_json example_store ''job-1'' 1 [''scan failed''])
           = Some (Msg ''scan job job-1 not found'')
   \<and> entries (rdb (snd (UpdateStatus example_json example_store ''job-1'' 1 [''scan failed''])))
       = entries (rdb example_store)"
proof -
  have h: "entries (rdb example_store) (keyForScanJob example_store ''job-1'') = None"
    by (simp add: example_store_def)
  from UpdateStatus_absent_id_not_found [OF h, of example_json 1 "[''scan failed'']"]
  show ?thesis by simp
qed

lemma update_success:
  assumes "fst (update js s job) = None"
      and "entries (rdb s) (keyForScanJob s (job_ID job)) \<noteq> None"
  shows "\<exists>bytes. Marshal js job = Inr bytes
           \<and> entries (rdb (snd (update js s job)))
               = (entries (rdb s))(keyForScanJob s (job_ID job) \<mapsto> (bytes, ScanJobTTL (cfg s)))"
  using assms
  by (auto simp: update_def redis_SetXX_def next_fault_def Let_def
      split: sum.splits list.splits option.splits if_splits)

text \<open>
  Claim C10. Let a job be present in the store: the value under its key decodes to it.
  After a successful \<open>UpdateStatus\<close> for its id, the value under that key is the encoding
  of a job with the same id and the same report, with the new status, and with the
  supplied message as error, or the old error when no message is supplied; the value is
  stored with the configured time-to-live and no other key has changed.
\<close>

theorem UpdateStatus_changes_status_and_error_only:
  assumes present: "entries (rdb s) (keyForScanJob s (job_ID job)) = Some (val, expiration)"
      and decodes: "Unmarshal js val = Inr job"
      and success: "fst (UpdateStatus js s (job_ID job) newStatus error_args) = None"
  shows "\<exists>job' bytes.
           Marshal js job' = Inr bytes
         \<and> entries (rdb (snd (UpdateStatus js s (job_ID job) newStatus error_args)))
             = (entries (rdb s))(keyForScanJob s (job_ID job) \<mapsto> (bytes, ScanJobTTL (cfg s)))
         \<and> job_ID job' = job_ID job
         \<and> job_Report job' = job_Report job
         \<and> job_Status job' = newStatus
         \<and> job_Error job' = (case error_args of [] \<Rightarrow> job_Error job | e0 # _ \<Rightarrow> e0)"
proof -
  obtain found err s' where g: "Get js s (job_ID job) = ((found, err), s')"
    by (metis prod.collapse)
  from success g obtain got where found: "found = Some got"
    by (cases found) (simp_all add: UpdateStatus_def)
  from Get_Some_job[of js s "job_ID job" got err] g found present decodes
  have got: "got = job" and err: "err = None" by simp_all
  let ?job' = "(case error_args of
                  [] \<Rightarrow> job\<lparr>job_Status := newStatus\<rparr>
                | e0 # _ \<Rightarrow> job\<lparr>job_Status := newStatus, job_Error := e0\<rparr>)"
  have id: "job_ID ?job' = job_ID job" by (simp split: list.splits)
  have us: "UpdateStatus js s (job_ID job) newStatus error_args = update js s' ?job'"
    using g found got err by (simp add: UpdateStatus_def Let_def split: list.splits)
  have s'_entries: "entries (rdb s') = entries (rdb s)"
    using Get_entries[of js s "job_ID job"] g by simp
  have s'_cfg: "cfg s' = cfg s"
    using Get_cfg[of js s "job_ID job"] g by simp
  have key: "keyForScanJob s' (job_ID ?job') = keyForScanJob s (job_ID job)"
    by (simp add: keyForScanJob_def s'_cfg id)
  have "fst (update js s' ?job') = None" using success us by simp
  moreover have "entries (rdb s') (keyForScanJob s' (job_ID ?job')) \<noteq> None"
    using present by (simp only: key s'_entries) simp
  ultimately obtain bytes where b: "Marshal js ?job' = Inr bytes"
    "entries (rdb (snd (update js s' ?job')))
       = (entries (rdb s'))(keyForScanJob s' (job_ID ?job') \<mapsto> (bytes, ScanJobTTL (cfg s')))"
    using update_success[of js s' ?job'] by blast
  have "Marshal js ?job' = Inr bytes
         \<and> entries (rdb (snd (UpdateStatus js s (job_ID job) newStatus error_args)))
             = (entries (rdb s))(keyForScanJob s (job_ID job) \<mapsto> (bytes, ScanJobTTL (cfg s)))
         \<and> job_ID ?job' = job_ID job
         \<and> job_Report ?job' = job_Report job
         \<and> job_Status ?job' = newStatus
         \<and> job_Error ?job' = (case error_args of [] \<Rightarrow> job_Error job | e0 # _ \<Rightarrow> e0)"
    using b unfolding us key s'_entries s'_cfg by (simp split: list.splits)
  then show ?thesis by blast
qed

text \<open>
  Claim C10 at the store that holds \<open>example_job\<close>, with the new status 1 and a message.
\<close>

theorem UpdateStatus_changes_status_and_error_only_witness:
  "fst (UpdateStatus example_json example_store_created ''job-1'' 1 [''scan failed'']) = None
   \<and> (\<exists>job'. Marshal example_json job'
               = Inr (fst (the (entries (rdb (snd (UpdateStatus example_json example_store_created
                                                      ''job-1'' 1 [''scan failed''])))
                                  ''harbor:scan-job:job-1'')))
            \<and> job_ID job' = ''job-1'' \<and> job_Report job' = example_report
            \<and> job_Status job' = 1 \<and> job_Error job' = ''scan failed'')"
proof -
  have i: "job_ID example_job = ''job-1''" by (simp add: example_job_def)
  have r: "job_Report example_job = example_report" by (simp add: example_job_def)
  have k: "keyForScanJob example_store_created ''job-1'' = ''harbor:scan-job:job-1''"
    by (simp add: example_store_created_eq keyForScanJob_def)
  have p: "entries (rdb example_store_created)
             (keyForScanJob example_store_created (job_ID example_job))
      = Some (''0job-1|'', 3600)"
    by (simp add: i k) (simp add: example_store_created_eq)
  have d: "Unmarshal example_json ''0job-1|'' = Inr example_job"
    by (simp add: example_json_def example_job_def)
  have ok: "fst (UpdateStatus example_json example_store_created ''job-1'' 1 [''scan failed''])
      = None"
    by (simp add: example_store_created_eq UpdateStatus_def Get_def redis_Get_def update_def
        redis_SetXX_def next_fault_def keyForScanJob_def example_json_def Let_def)
  from ok have ok': "fst (UpdateStatus example_json example_store_created (job_ID example_job) 1
      [''scan failed'']) = None"
    by (simp only: i)
  from UpdateStatus_changes_status_and_error_only [OF p d ok']
  obtain job' bytes where
    "Marshal example_json job' = Inr bytes"
    "entries (rdb (snd (UpdateStatus example_json example_store_created (job_ID example_job) 1
         [''scan failed''])))
       = (entries (rdb example_store_created))
           (keyForScanJob example_store_created (job_ID example_job)
              \<mapsto> (bytes, ScanJobTTL (cfg example_store_created)))"
    "job_ID job' = job_ID example_job" "job_Report job' = job_Report example_job"
    "job_Status job' = 1" "job_Error job' = ''scan failed''"
    by auto
  then have "Marshal example_json job'
               = Inr (fst (the (entries (rdb (snd (UpdateStatus example_json example_store_created
                                                      ''job-1'' 1 [''scan failed''])))
                                  ''harbor:scan-job:job-1'')))
            \<and> job_ID job' = ''job-1'' \<and> job_Report job' = example_report
            \<and> job_Status job' = 1 \<and> job_Error job' = ''scan failed''"
    by (simp add: i r k)
  with ok show ?thesis by blast
qed

end
